theory Spec2Isabelle
  imports Complex_Main
begin

section \<open>Numbers as NumPy computes them\<close>

text \<open>
  The analyzer divides NumPy scalars: a division by zero does not raise, it yields
  \<open>inf\<close>, \<open>-inf\<close> or \<open>nan\<close> (the warnings are silenced at import time). A value is
  therefore a finite number or one of the three special values. Finite values are exact
  reals: rounding is not modelled. Every zero is the positive zero, which is the only zero
  the analyzer can produce (counts, rates and differences of equal rates).
\<close>

datatype fl = Num real | PosInf | NegInf | NaN

fun fneg :: "fl \<Rightarrow> fl" where
  "fneg (Num a) = Num (- a)"
| "fneg PosInf = NegInf"
| "fneg NegInf = PosInf"
| "fneg NaN = NaN"

fun fadd :: "fl \<Rightarrow> fl \<Rightarrow> fl" where
  "fadd (Num a) (Num b) = Num (a + b)"
| "fadd NaN _ = NaN"
| "fadd _ NaN = NaN"
| "fadd PosInf NegInf = NaN"
| "fadd NegInf PosInf = NaN"
| "fadd PosInf _ = PosInf"
| "fadd NegInf _ = NegInf"
| "fadd _ PosInf = PosInf"
| "fadd _ NegInf = NegInf"

definition fsub :: "fl \<Rightarrow> fl \<Rightarrow> fl" where
  "fsub x y = fadd x (fneg y)"

definition signed_inf :: "bool \<Rightarrow> fl" where
  "signed_inf positive = (if positive then PosInf else NegInf)"

fun fmul :: "fl \<Rightarrow> fl \<Rightarrow> fl" where
  "fmul (Num a) (Num b) = Num (a * b)"
| "fmul NaN _ = NaN"
| "fmul _ NaN = NaN"
| "fmul PosInf (Num b) = (if b = 0 then NaN else signed_inf (0 < b))"
| "fmul NegInf (Num b) = (if b = 0 then NaN else signed_inf (b < 0))"
| "fmul (Num a) PosInf = (if a = 0 then NaN else signed_inf (0 < a))"
| "fmul (Num a) NegInf = (if a = 0 then NaN else signed_inf (a < 0))"
| "fmul PosInf PosInf = PosInf"
| "fmul NegInf NegInf = PosInf"
| "fmul PosInf NegInf = NegInf"
| "fmul NegInf PosInf = NegInf"

fun fdiv :: "fl \<Rightarrow> fl \<Rightarrow> fl" where
  "fdiv (Num a) (Num b) =
     (if b = 0 then (if a = 0 then NaN else signed_inf (0 < a)) else Num (a / b))"
| "fdiv NaN _ = NaN"
| "fdiv _ NaN = NaN"
| "fdiv (Num a) PosInf = Num 0"
| "fdiv (Num a) NegInf = Num 0"
| "fdiv PosInf (Num b) = signed_inf (0 \<le> b)"
| "fdiv NegInf (Num b) = signed_inf (b < 0)"
| "fdiv PosInf PosInf = NaN"
| "fdiv PosInf NegInf = NaN"
| "fdiv NegInf PosInf = NaN"
| "fdiv NegInf NegInf = NaN"

text \<open>Comparison: anything compared with \<open>nan\<close> is false.\<close>

fun fless :: "fl \<Rightarrow> fl \<Rightarrow> bool" where
  "fless (Num a) (Num b) = (a < b)"
| "fless NaN _ = False"
| "fless _ NaN = False"
| "fless NegInf NegInf = False"
| "fless NegInf _ = True"
| "fless PosInf _ = False"
| "fless (Num a) PosInf = True"
| "fless (Num a) NegInf = False"

definition of_count :: "nat \<Rightarrow> fl" where
  "of_count n = Num (real n)"

definition of_total :: "int \<Rightarrow> fl" where
  "of_total n = Num (real_of_int n)"

section \<open>The merged experiment data\<close>

text \<open>
  One row of \<open>self.data\<close>, the inner join of the two CSV files on \<open>id\<close>. The columns
  \<open>id\<close> and \<open>converted\<close> are integer columns; a missing value (\<open>NaN\<close>) of one of
  the string columns is \<open>None\<close>.
\<close>

record observation =
  obs_id :: int
  con_treat :: "string option"
  page :: "string option"
  converted :: int
  country :: "string option"

datatype py_error = KeyError string | ZeroDivisionError

text \<open>\<open>Series.unique()\<close>: the distinct values in order of first appearance.\<close>

fun unique :: "'a list \<Rightarrow> 'a list" where
  "unique [] = []"
| "unique (x # xs) = x # unique (filter (\<lambda>y. y \<noteq> x) xs)"

subsection \<open>Removing duplicate identifiers\<close>

text \<open>
  \<open>DataFrame.duplicated('id')\<close> marks a row whose identifier was seen in an earlier
  row; \<open>drop_duplicates(subset='id')\<close> keeps the rows that are not marked.
\<close>

fun duplicated :: "int list \<Rightarrow> int list \<Rightarrow> bool list" where
  "duplicated seen [] = []"
| "duplicated seen (i # ids) = (i \<in> set seen) # duplicated (i # seen) ids"

definition duplicates_count :: "observation list \<Rightarrow> nat" where
  "duplicates_count rows = length (filter (\<lambda>d. d) (duplicated [] (map obs_id rows)))"

definition drop_duplicates :: "observation list \<Rightarrow> observation list" where
  "drop_duplicates rows =
     map snd (filter (\<lambda>(d, r). \<not> d) (zip (duplicated [] (map obs_id rows)) rows))"

section \<open>Data quality checks\<close>

text \<open>
  \<open>pd.crosstab(con_treat, page)\<close> counts the rows in which both labels are present,
  by row label and column label; a row or a column exists only for a label that occurs.
  A row is kept with its label, the counts follow the order of the columns. (pandas sorts
  the labels; the lookups below are by label, so the order is left as first appearance.)
\<close>

record crosstab =
  ct_columns :: "string list"
  ct_rows :: "(string \<times> nat list) list"

definition pd_crosstab :: "observation list \<Rightarrow> crosstab" where
  "pd_crosstab rows =
     (let kept = filter (\<lambda>r. con_treat r \<noteq> None \<and> page r \<noteq> None) rows;
          index = unique (map (the \<circ> con_treat) kept);
          columns = unique (map (the \<circ> page) kept)
      in \<lparr>ct_columns = columns,
          ct_rows = map (\<lambda>g. (g, map (\<lambda>p. length (filter (\<lambda>r. con_treat r = Some g \<and> page r = Some p) kept))
                                      columns)) index\<rparr>)"

text \<open>\<open>table.loc[g]\<close> and \<open>table.loc[g, p]\<close>: a label that is absent raises KeyError.\<close>

definition loc_row :: "crosstab \<Rightarrow> string \<Rightarrow> py_error + nat list" where
  "loc_row t g = (case map_of (ct_rows t) g of None \<Rightarrow> Inl (KeyError g) | Some r \<Rightarrow> Inr r)"

definition loc_cell :: "crosstab \<Rightarrow> string \<Rightarrow> string \<Rightarrow> py_error + nat" where
  "loc_cell t g p =
     (case loc_row t g of
        Inl e \<Rightarrow> Inl e
      | Inr r \<Rightarrow> (case map_of (zip (ct_columns t) r) p of
                    None \<Rightarrow> Inl (KeyError p)
                  | Some n \<Rightarrow> Inr n))"

text \<open>\<open>Series.value_counts()\<close>: the number of rows per label, missing labels dropped.\<close>

definition value_counts :: "string option list \<Rightarrow> (string \<times> nat) list" where
  "value_counts col =
     (let present = map the (filter (\<lambda>v. v \<noteq> None) col)
      in map (\<lambda>g. (g, length (filter (\<lambda>v. v = g) present))) (unique present))"

text \<open>\<open>min()\<close> and \<open>max()\<close> of a Series of counts; \<open>nan\<close> on an empty Series.\<close>

definition series_min :: "nat list \<Rightarrow> fl" where
  "series_min ns = (case ns of [] \<Rightarrow> NaN | n # rest \<Rightarrow> of_count (fold min rest n))"

definition series_max :: "nat list \<Rightarrow> fl" where
  "series_max ns = (case ns of [] \<Rightarrow> NaN | n # rest \<Rightarrow> of_count (fold max rest n))"

text \<open>
  What \<open>_data_quality_checks\<close> computes and prints: the method returns nothing, the
  report collects the printed quantities and the two warnings.
\<close>

record validation_report =
  missing_con_treat :: nat
  missing_page :: nat
  missing_country :: nat
  assignment_check :: crosstab
  control_error_rate :: fl
  treatment_error_rate :: fl
  high_misassignment :: bool
  size_ratio :: fl
  unbalanced :: bool

definition count_missing :: "'a option list \<Rightarrow> nat" where
  "count_missing col = length (filter (\<lambda>v. v = None) col)"

definition data_quality_checks :: "observation list \<Rightarrow> py_error + validation_report" where
  "data_quality_checks data =
     (let assignment_check = pd_crosstab data in
      case (if ''new_page'' \<in> set (ct_columns assignment_check)
            then loc_cell assignment_check ''control'' ''new_page'' else Inr 0) of
        Inl e \<Rightarrow> Inl e
      | Inr control_with_new \<Rightarrow>
     (case (if ''old_page'' \<in> set (ct_columns assignment_check)
            then loc_cell assignment_check ''treatment'' ''old_page'' else Inr 0) of
        Inl e \<Rightarrow> Inl e
      | Inr treatment_with_old \<Rightarrow>
     (case loc_row assignment_check ''control'' of
        Inl e \<Rightarrow> Inl e
      | Inr control_row \<Rightarrow>
     (case loc_row assignment_check ''treatment'' of
        Inl e \<Rightarrow> Inl e
      | Inr treatment_row \<Rightarrow>
        (let total_control = sum_list control_row;
             total_treatment = sum_list treatment_row;
             control_error_rate =
               (if total_control > 0
                then fdiv (of_count control_with_new) (of_count total_control) else Num 0);
             treatment_error_rate =
               (if total_treatment > 0
                then fdiv (of_count treatment_with_old) (of_count total_treatment) else Num 0);
             group_sizes = map snd (value_counts (map con_treat data));
             size_ratio = fdiv (series_min group_sizes) (series_max group_sizes)
         in Inr \<lparr>missing_con_treat = count_missing (map con_treat data),
                 missing_page = count_missing (map page data),
                 missing_country = count_missing (map country data),
                 assignment_check = assignment_check,
                 control_error_rate = control_error_rate,
                 treatment_error_rate = treatment_error_rate,
                 high_misassignment =
                   (fless (Num (1 / 100)) control_error_rate
                    \<or> fless (Num (1 / 100)) treatment_error_rate),
                 size_ratio = size_ratio,
                 unbalanced = fless size_ratio (Num (8 / 10))\<rparr>)))))"

subsection \<open>Loading\<close>

text \<open>
  \<open>load_and_prepare_data\<close> from the merged frame on: count the duplicated
  identifiers, drop them when there are any, run the quality checks. An error of the
  checks leaves the constructor, so no analyzer exists then.
\<close>

record prepared =
  duplicates_found :: nat
  prepared_data :: "observation list"
  report :: validation_report

definition load_and_prepare_data :: "observation list \<Rightarrow> py_error + prepared" where
  "load_and_prepare_data merged =
     (let duplicates = duplicates_count merged;
          data = (if duplicates > 0 then drop_duplicates merged else merged)
      in case data_quality_checks data of
           Inl e \<Rightarrow> Inl e
         | Inr rep \<Rightarrow> Inr \<lparr>duplicates_found = duplicates, prepared_data = data, report = rep\<rparr>)"

section \<open>Statistical tests\<close>

text \<open>
  The two statsmodels functions are not part of the repository; they are parameters of
  the model. Both work on arrays of two elements, treatment first and control second.
  \<open>proportions_ztest count nobs\<close> returns the statistic and the p-value;
  \<open>proportion_confint count nobs alpha\<close> returns the array of the two lower bounds
  and the array of the two upper bounds. Both are NumPy array arithmetic, which yields
  \<open>nan\<close> or \<open>inf\<close> on a zero count and does not raise, so they are total functions here.
\<close>

record stats_lib =
  proportions_ztest :: "int \<times> int \<Rightarrow> nat \<times> nat \<Rightarrow> fl \<times> fl"
  proportion_confint :: "int \<times> int \<Rightarrow> nat \<times> nat \<Rightarrow> real \<Rightarrow> (fl \<times> fl) \<times> (fl \<times> fl)"

record test_result =
  control_rate :: fl
  treatment_rate :: fl
  effect_size :: fl
  relative_effect :: fl
  z_stat :: fl
  p_value :: fl
  ci_low :: fl
  ci_high :: fl

record overall_result = test_result +
  significant :: bool

record country_result = test_result +
  p_value_adjusted :: bool

datatype entry = Overall overall_result | Stratum country_result

text \<open>\<open>self.alpha = 0.05\<close>, set by the constructor and never changed.\<close>

definition alpha :: real where
  "alpha = 5 / 100"

definition group_rows :: "string \<Rightarrow> observation list \<Rightarrow> observation list" where
  "group_rows g rows = filter (\<lambda>r. con_treat r = Some g) rows"

definition conversions :: "observation list \<Rightarrow> int" where
  "conversions rows = sum_list (map converted rows)"

text \<open>The overall test, from the four counts to the entry stored under \<open>'overall'\<close>.\<close>

definition overall_entry :: "stats_lib \<Rightarrow> int \<Rightarrow> int \<Rightarrow> nat \<Rightarrow> nat \<Rightarrow> overall_result" where
  "overall_entry lib control_conversions treatment_conversions control_size treatment_size =
     (let (z_stat, p_value) =
            proportions_ztest lib (treatment_conversions, control_conversions)
              (treatment_size, control_size);
          control_rate = fdiv (of_total control_conversions) (of_count control_size);
          treatment_rate = fdiv (of_total treatment_conversions) (of_count treatment_size);
          effect_size = fsub treatment_rate control_rate;
          relative_effect = fmul (fdiv effect_size control_rate) (Num 100);
          (ci_low, ci_high) =
            proportion_confint lib (treatment_conversions, control_conversions)
              (treatment_size, control_size) alpha;
          ci_diff_low = fsub (fst ci_low) (snd ci_high);
          ci_diff_high = fsub (fst ci_high) (snd ci_low)
      in \<lparr>control_rate = control_rate,
          treatment_rate = treatment_rate,
          effect_size = effect_size,
          relative_effect = relative_effect,
          z_stat = z_stat,
          p_value = p_value,
          ci_low = ci_diff_low,
          ci_high = ci_diff_high,
          significant = fless p_value (Num alpha)\<rparr>)"

text \<open>The body of the country loop under its guard, from the four counts of the country.\<close>

definition country_entry :: "stats_lib \<Rightarrow> real \<Rightarrow> int \<Rightarrow> int \<Rightarrow> nat \<Rightarrow> nat \<Rightarrow> country_result" where
  "country_entry lib bonferroni_alpha c_conv t_conv c_size t_size =
     (let (z_stat, p_val) = proportions_ztest lib (t_conv, c_conv) (t_size, c_size);
          c_rate = fdiv (of_total c_conv) (of_count c_size);
          t_rate = fdiv (of_total t_conv) (of_count t_size);
          effect = fsub t_rate c_rate;
          rel_effect =
            (if fless (Num 0) c_rate then fmul (fdiv effect c_rate) (Num 100) else Num 0);
          (ci_low, ci_high) =
            proportion_confint lib (t_conv, c_conv) (t_size, c_size) bonferroni_alpha;
          ci_diff_low = fsub (fst ci_low) (snd ci_high);
          ci_diff_high = fsub (fst ci_high) (snd ci_low)
      in \<lparr>control_rate = c_rate,
          treatment_rate = t_rate,
          effect_size = effect,
          relative_effect = rel_effect,
          z_stat = z_stat,
          p_value = p_val,
          ci_low = ci_diff_low,
          ci_high = ci_diff_high,
          p_value_adjusted = fless p_val (Num bonferroni_alpha)\<rparr>)"

text \<open>
  One round of the loop over \<open>countries\<close>. The missing country is one of the values of
  \<open>unique()\<close>, and no row compares equal to it: its selection is empty.
\<close>

definition country_rows :: "string option \<Rightarrow> observation list \<Rightarrow> observation list" where
  "country_rows c rows = filter (\<lambda>r. c \<noteq> None \<and> country r = c) rows"

definition country_step ::
  "stats_lib \<Rightarrow> real \<Rightarrow> observation list \<Rightarrow> string option \<Rightarrow> (string \<rightharpoonup> entry) \<Rightarrow> (string \<rightharpoonup> entry)" where
  "country_step lib bonferroni_alpha data c results =
     (let country_data = country_rows c data;
          country_control = group_rows ''control'' country_data;
          country_treatment = group_rows ''treatment'' country_data;
          c_conv = conversions country_control;
          t_conv = conversions country_treatment;
          c_size = length country_control;
          t_size = length country_treatment
      in if c_size > 0 \<and> t_size > 0
         then (case c of
                 None \<Rightarrow> results
               | Some name \<Rightarrow>
                   results(name \<mapsto>
                     Stratum (country_entry lib bonferroni_alpha c_conv t_conv c_size t_size)))
         else results)"

text \<open>
  \<open>statistical_tests\<close>: the dictionary of results. \<open>self.alpha / n_tests\<close> divides a
  Python float by a Python int, which raises ZeroDivisionError when there is no country
  value at all.
\<close>

definition n_tests :: "observation list \<Rightarrow> nat" where
  "n_tests data = length (unique (map country data))"

definition statistical_tests :: "stats_lib \<Rightarrow> observation list \<Rightarrow> py_error + (string \<rightharpoonup> entry)" where
  "statistical_tests lib data =
     (let control_data = group_rows ''control'' data;
          treatment_data = group_rows ''treatment'' data;
          results = [''overall'' \<mapsto>
            Overall (overall_entry lib (conversions control_data) (conversions treatment_data)
                       (length control_data) (length treatment_data))];
          countries = unique (map country data)
      in if n_tests data = 0 then Inl ZeroDivisionError
         else Inr (fold (country_step lib (alpha / real (n_tests data)) data) countries results))"

section \<open>The two-proportion test of the specification\<close>

text \<open>
  Square root and absolute value on the values of NumPy, and a distribution function
  extended to them: it is 1 at \<open>inf\<close> and 0 at \<open>-inf\<close>.
\<close>

fun fsqrt :: "fl \<Rightarrow> fl" where
  "fsqrt (Num a) = (if a < 0 then NaN else Num (sqrt a))"
| "fsqrt PosInf = PosInf"
| "fsqrt NegInf = NaN"
| "fsqrt NaN = NaN"

fun fabs :: "fl \<Rightarrow> fl" where
  "fabs (Num a) = Num \<bar>a\<bar>"
| "fabs PosInf = PosInf"
| "fabs NegInf = PosInf"
| "fabs NaN = NaN"

fun cdf_at :: "(real \<Rightarrow> real) \<Rightarrow> fl \<Rightarrow> fl" where
  "cdf_at Phi (Num x) = Num (Phi x)"
| "cdf_at Phi PosInf = Num 1"
| "cdf_at Phi NegInf = Num 0"
| "cdf_at Phi NaN = NaN"

text \<open>
  Modelled from the spec: the pooled z-test of section 4.3, which the code takes from
  statsmodels (\<open>proportions_ztest\<close>, not part of the repository). Two samples of
  successes and trials, the first one first: pooled rate \<open>(s1 + s2) / (n1 + n2)\<close>,
  standard error \<open>sqrt (pooled * (1 - pooled) * (1 / n1 + 1 / n2))\<close>, statistic
  \<open>z = (p1 - p2) / SE\<close>, two-sided p-value \<open>2 * (1 - Phi \<bar>z\<bar>)\<close>. The normal
  distribution function \<open>Phi\<close> is a numeric primitive the spec assumes; it is a
  parameter. A quantity that is numerically undefined is \<open>nan\<close>, as the spec says
  (section 7) and as the array arithmetic of the library computes it.
\<close>

definition two_proportion_test :: "(real \<Rightarrow> real) \<Rightarrow> nat \<times> nat \<Rightarrow> nat \<times> nat \<Rightarrow> fl \<times> fl" where
  "two_proportion_test Phi sample1 sample2 =
     (let (s1, n1) = sample1;
          (s2, n2) = sample2;
          p1 = fdiv (of_count s1) (of_count n1);
          p2 = fdiv (of_count s2) (of_count n2);
          pooled = fdiv (fadd (of_count s1) (of_count s2)) (fadd (of_count n1) (of_count n2));
          se = fsqrt (fmul (fmul pooled (fsub (Num 1) pooled))
                        (fadd (fdiv (Num 1) (of_count n1)) (fdiv (Num 1) (of_count n2))));
          z = fdiv (fsub p1 p2) se;
          p = fmul (Num 2) (fsub (Num 1) (cdf_at Phi (fabs z)))
      in (z, p))"

section \<open>Notions used to state the properties\<close>







text \<open>
  The frame after the duplicate check of \<open>load_and_prepare_data\<close>, and the rows
  \<open>drop_duplicates\<close> keeps, computed in one pass with the identifiers seen so far.
\<close>

definition deduplicated :: "observation list \<Rightarrow> observation list" where
  "deduplicated merged = (if duplicates_count merged > 0 then drop_duplicates merged else merged)"

fun keep_first :: "int list \<Rightarrow> observation list \<Rightarrow> observation list" where
  "keep_first seen [] = []"
| "keep_first seen (x # xs) =
     (if obs_id x \<in> set seen then keep_first (obs_id x # seen) xs
      else x # keep_first (obs_id x # seen) xs)"

subsection \<open>Concrete data\<close>

text \<open>
  A complete row, and a stand-in for the library in concrete runs: it returns the same
  statistic, p-value and intervals whatever the counts are.
\<close>

definition row :: "int \<Rightarrow> string \<Rightarrow> string \<Rightarrow> int \<Rightarrow> string \<Rightarrow> observation" where
  "row i g p c k = \<lparr>obs_id = i, con_treat = Some g, page = Some p, converted = c, country = Some k\<rparr>"

definition sample_lib :: stats_lib where
  "sample_lib =
     \<lparr>proportions_ztest = (\<lambda>count nobs. (Num 2, Num (3 / 100))),
      proportion_confint = (\<lambda>count nobs a. ((Num (1 / 10), Num (1 / 10)), (Num (3 / 10), Num (3 / 10))))\<rparr>"

definition zero_control_data :: "observation list" where
  "zero_control_data =
     [row 1 ''control'' ''old_page'' 0 ''US'', row 2 ''treatment'' ''new_page'' 1 ''US'']"



definition old_page_treatment_data :: "observation list" where
  "old_page_treatment_data = [row 7 ''treatment'' ''old_page'' 0 ''CA'']"

definition untested_strata_data :: "observation list" where
  "untested_strata_data =
     [row 1 ''control'' ''old_page'' 1 ''US'',
      row 2 ''treatment'' ''new_page'' 1 ''US'',
      row 3 ''control'' ''old_page'' 0 ''UK'',
      (row 4 ''treatment'' ''new_page'' 0 ''US'')\<lparr>country := None\<rparr>]"


definition duplicate_rows_data :: "observation list" where
  "duplicate_rows_data =
     [row 1 ''control'' ''old_page'' 0 ''US'',
      row 2 ''treatment'' ''new_page'' 1 ''US'',
      row 1 ''treatment'' ''new_page'' 1 ''UK'']"

definition duplicate_rows_prepared :: prepared where
  "duplicate_rows_prepared =
     \<lparr>duplicates_found = 1,
      prepared_data =
        [row 1 ''control'' ''old_page'' 0 ''US'', row 2 ''treatment'' ''new_page'' 1 ''US''],
      report =
        \<lparr>missing_con_treat = 0, missing_page = 0, missing_country = 0,
         assignment_check =
           \<lparr>ct_columns = [''old_page'', ''new_page''],
            ct_rows = [(''control'', [1, 0]), (''treatment'', [0, 1])]\<rparr>,
         control_error_rate = Num 0, treatment_error_rate = Num 0,
         high_misassignment = False, size_ratio = Num 1, unbalanced = False\<rparr>\<rparr>"

text \<open>
  A function with the bounds of a distribution function on the non-negative half-line,
  to run the test of the specification on concrete counts.
\<close>

definition step_cdf :: "real \<Rightarrow> real" where
  "step_cdf x = (if x < 0 then 0 else if x = 0 then 1 / 2 else 1)"

section \<open>The result dictionary\<close>

lemma set_unique [simp]: "set (unique xs) = set xs"
  by (induction xs rule: unique.induct) auto










lemma overall_entry_fields:
  "control_rate (overall_entry lib cc tc cs ts) = fdiv (of_total cc) (of_count cs)"
  "treatment_rate (overall_entry lib cc tc cs ts) = fdiv (of_total tc) (of_count ts)"
  "effect_size (overall_entry lib cc tc cs ts) =
     fsub (fdiv (of_total tc) (of_count ts)) (fdiv (of_total cc) (of_count cs))"
  "relative_effect (overall_entry lib cc tc cs ts) =
     fmul (fdiv (fsub (fdiv (of_total tc) (of_count ts)) (fdiv (of_total cc) (of_count cs)))
             (fdiv (of_total cc) (of_count cs))) (Num 100)"
  "z_stat (overall_entry lib cc tc cs ts) = fst (proportions_ztest lib (tc, cc) (ts, cs))"
  "p_value (overall_entry lib cc tc cs ts) = snd (proportions_ztest lib (tc, cc) (ts, cs))"
  "ci_low (overall_entry lib cc tc cs ts) =
     fsub (fst (fst (proportion_confint lib (tc, cc) (ts, cs) alpha)))
          (snd (snd (proportion_confint lib (tc, cc) (ts, cs) alpha)))"
  "ci_high (overall_entry lib cc tc cs ts) =
     fsub (fst (snd (proportion_confint lib (tc, cc) (ts, cs) alpha)))
          (snd (fst (proportion_confint lib (tc, cc) (ts, cs) alpha)))"
  "significant (overall_entry lib cc tc cs ts) =
     fless (snd (proportions_ztest lib (tc, cc) (ts, cs))) (Num alpha)"
  by (simp_all add: overall_entry_def Let_def split_def)






section \<open>The cross-tabulation lookups\<close>






section \<open>Duplicate identifiers\<close>

lemma kept_rows_keep_first:
  "map snd (filter (\<lambda>(d, r). \<not> d) (zip (duplicated seen (map obs_id xs)) xs)) = keep_first seen xs"
  by (induction xs arbitrary: seen) auto

lemma drop_duplicates_keep_first: "drop_duplicates xs = keep_first [] xs"
  by (simp add: drop_duplicates_def kept_rows_keep_first)


lemma keep_first_unseen: "r \<in> set (keep_first seen xs) \<Longrightarrow> obs_id r \<notin> set seen"
proof (induction xs arbitrary: seen)
  case Nil
  then show ?case by simp
next
  case (Cons x xs)
  then have "r = x \<and> obs_id x \<notin> set seen \<or> r \<in> set (keep_first (obs_id x # seen) xs)"
    by (auto split: if_splits)
  then show ?case
  proof
    assume "r = x \<and> obs_id x \<notin> set seen"
    then show ?thesis by simp
  next
    assume "r \<in> set (keep_first (obs_id x # seen) xs)"
    from Cons.IH[OF this] show ?thesis by simp
  qed
qed

lemma distinct_keep_first: "distinct (map obs_id (keep_first seen xs))"
proof (induction xs arbitrary: seen)
  case Nil
  then show ?case by simp
next
  case (Cons x xs)
  have "obs_id x \<notin> obs_id ` set (keep_first (obs_id x # seen) xs)"
  proof
    assume "obs_id x \<in> obs_id ` set (keep_first (obs_id x # seen) xs)"
    then obtain r where r: "r \<in> set (keep_first (obs_id x # seen) xs)" "obs_id r = obs_id x"
      by auto
    from keep_first_unseen[OF r(1)] r(2) show False by simp
  qed
  with Cons.IH show ?case by simp
qed

lemma find_keep_first:
  "i \<notin> set seen \<Longrightarrow>
     find (\<lambda>r. obs_id r = i) (keep_first seen xs) = find (\<lambda>r. obs_id r = i) xs"
  by (induction xs arbitrary: seen) auto

lemma no_duplicates_flagged:
  "distinct ids \<Longrightarrow> set ids \<inter> set seen = {} \<Longrightarrow> filter (\<lambda>d. d) (duplicated seen ids) = []"
  by (induction ids arbitrary: seen) auto

lemma no_duplicates_flagged_iff:
  "filter (\<lambda>d. d) (duplicated seen ids) = [] \<longleftrightarrow> distinct ids \<and> set ids \<inter> set seen = {}"
  by (induction ids arbitrary: seen) auto

lemma duplicates_count_distinct: "distinct (map obs_id xs) \<Longrightarrow> duplicates_count xs = 0"
  by (simp add: duplicates_count_def no_duplicates_flagged)

lemma load_and_prepare_data_alt:
  "load_and_prepare_data merged =
     (case data_quality_checks (deduplicated merged) of
        Inl e \<Rightarrow> Inl e
      | Inr rep \<Rightarrow> Inr \<lparr>duplicates_found = duplicates_count merged,
                        prepared_data = deduplicated merged, report = rep\<rparr>)"
  by (cases "duplicates_count merged > 0")
     (simp_all add: load_and_prepare_data_def deduplicated_def Let_def split: sum.splits)

lemma deduplicated_distinct: "distinct (map obs_id xs) \<Longrightarrow> deduplicated xs = xs"
  by (simp add: deduplicated_def duplicates_count_distinct)

lemma deduplicated_idem: "deduplicated (deduplicated xs) = deduplicated xs"
  by (simp add: deduplicated_def drop_duplicates_keep_first distinct_keep_first
        duplicates_count_distinct)

lemma find_deduplicated:
  "find (\<lambda>r. obs_id r = i) (deduplicated xs) = find (\<lambda>r. obs_id r = i) xs"
  by (simp add: deduplicated_def drop_duplicates_keep_first find_keep_first)


lemma duplicates_count_deduplicated: "duplicates_count (deduplicated xs) = 0"
proof (cases "duplicates_count xs > 0")
  case True
  then show ?thesis
    by (simp add: deduplicated_def drop_duplicates_keep_first distinct_keep_first
          duplicates_count_distinct)
next
  case False
  then show ?thesis by (simp add: deduplicated_def)
qed

lemma distinct_deduplicated_prepared:
  assumes "load_and_prepare_data merged = Inr p"
  shows "prepared_data p = deduplicated merged"
    and "duplicates_found p = duplicates_count merged"
    and "data_quality_checks (deduplicated merged) = Inr (report p)"
  using assms by (auto simp: load_and_prepare_data_alt split: sum.splits)


lemma duplicate_rows_run:
  "load_and_prepare_data duplicate_rows_data = Inr duplicate_rows_prepared"
  by (simp add: load_and_prepare_data_def duplicates_count_def drop_duplicates_def
        data_quality_checks_def pd_crosstab_def loc_cell_def loc_row_def value_counts_def
        series_min_def series_max_def count_missing_def of_count_def
        duplicate_rows_data_def duplicate_rows_prepared_def row_def Let_def)

section \<open>The pooled test on well-formed counts\<close>

lemma pooled_variance_positive:
  fixes s1 s2 n1 n2 :: nat
  assumes "0 < n1" "0 < n2" "0 < s1 + s2" "s1 + s2 < n1 + n2"
  shows "0 < (real s1 + real s2) / (real n1 + real n2)
           * (1 - (real s1 + real s2) / (real n1 + real n2)) * (1 / real n1 + 1 / real n2)"
proof -
  let ?q = "(real s1 + real s2) / (real n1 + real n2)"
  have n: "0 < real n1 + real n2" using assms by simp
  have "0 < real s1 + real s2" using assms(3) by linarith
  then have q0: "0 < ?q" using n by simp
  have "real s1 + real s2 < real n1 + real n2" using assms(4) by linarith
  then have q1: "?q < 1" using n by simp
  have r: "0 < 1 / real n1 + 1 / real n2" using assms by (simp add: add_pos_pos)
  have "0 < 1 - ?q" using q1 by simp
  then have "0 < ?q * (1 - ?q)" using q0 by (rule mult_pos_pos[rotated])
  then show ?thesis using r by (rule mult_pos_pos)
qed

lemma two_proportion_test_value:
  fixes s1 s2 n1 n2 :: nat
  assumes "0 < n1" "0 < n2" "0 < s1 + s2" "s1 + s2 < n1 + n2"
  shows "two_proportion_test Phi (s1, n1) (s2, n2) =
     (Num ((real s1 / real n1 - real s2 / real n2)
            / sqrt ((real s1 + real s2) / (real n1 + real n2)
                 * (1 - (real s1 + real s2) / (real n1 + real n2)) * (1 / real n1 + 1 / real n2))),
      Num (2 * (1 - Phi \<bar>(real s1 / real n1 - real s2 / real n2)
            / sqrt ((real s1 + real s2) / (real n1 + real n2)
                 * (1 - (real s1 + real s2) / (real n1 + real n2)) * (1 / real n1 + 1 / real n2))\<bar>)))"
proof -
  let ?v = "(real s1 + real s2) / (real n1 + real n2)
                 * (1 - (real s1 + real s2) / (real n1 + real n2)) * (1 / real n1 + 1 / real n2)"
  have v: "0 < ?v" using pooled_variance_positive[OF assms] .
  then have sq: "sqrt ?v \<noteq> 0" "\<not> ?v < 0" by auto
  have n: "real n1 + real n2 \<noteq> 0" "real n1 \<noteq> 0" "real n2 \<noteq> 0" using assms by auto
  show ?thesis
    using sq n
    by (simp add: two_proportion_test_def of_count_def fsub_def Let_def del: real_sqrt_eq_zero_cancel_iff)
qed

lemma two_proportion_test_degenerate:
  fixes s1 s2 n1 n2 :: nat
  assumes "0 < n1" "0 < n2" "s1 \<le> n1" "s2 \<le> n2" "s1 + s2 = 0 \<or> s1 + s2 = n1 + n2"
  shows "two_proportion_test Phi (s1, n1) (s2, n2) = (NaN, NaN)"
proof -
  from assms have "s1 = 0 \<and> s2 = 0 \<or> s1 = n1 \<and> s2 = n2" by auto
  then show ?thesis
  proof
    assume "s1 = 0 \<and> s2 = 0"
    then show ?thesis using assms(1,2)
      by (simp add: two_proportion_test_def of_count_def fsub_def Let_def)
  next
    assume "s1 = n1 \<and> s2 = n2"
    then show ?thesis using assms(1,2)
      by (simp add: two_proportion_test_def of_count_def fsub_def Let_def)
  qed
qed

lemma effect_size_swap:
  fixes s1 s2 n1 n2 :: nat
  assumes "0 < n1" "0 < n2"
  shows "effect_size (overall_entry lib (int s1) (int s2) n1 n2) =
           fneg (effect_size (overall_entry lib (int s2) (int s1) n2 n1))"
  using assms by (simp add: overall_entry_fields of_total_def of_count_def fsub_def)

section \<open>Relative effect when the control rate is zero\<close>




section \<open>The number of tests of the Bonferroni correction\<close>

text \<open>
  Claim C2 fails on the code: \<open>n_tests\<close> is the number of values of
  \<open>country.unique()\<close>, counted before the loop decides which countries are tested. In
  this dataset US has both groups, UK has a control row only and one row has no country:
  \<open>n_tests\<close> is 3 and the adjusted level is \<open>0.05 / 3\<close>, while one country is tested.
  Its p-value 0.03 is below 0.05, the level for one test, and it is flagged as not
  significant.
\<close>

theorem n_tests_counts_untested_strata:
  "n_tests untested_strata_data = 3
   \<and> statistical_tests sample_lib untested_strata_data =
     Inr [''overall'' \<mapsto> Overall \<lparr>control_rate = Num (1 / 2), treatment_rate = Num (1 / 2),
             effect_size = Num 0, relative_effect = Num 0, z_stat = Num 2,
             p_value = Num (3 / 100), ci_low = Num (- (1 / 5)), ci_high = Num (1 / 5),
             significant = True\<rparr>,
          ''US'' \<mapsto> Stratum \<lparr>control_rate = Num 1, treatment_rate = Num 1, effect_size = Num 0,
             relative_effect = Num 0, z_stat = Num 2, p_value = Num (3 / 100),
             ci_low = Num (- (1 / 5)), ci_high = Num (1 / 5), p_value_adjusted = False\<rparr>]"
  by (simp add: statistical_tests_def n_tests_def untested_strata_data_def row_def sample_lib_def
        country_step_def country_rows_def group_rows_def conversions_def country_entry_def
        overall_entry_def of_total_def of_count_def fsub_def signed_inf_def alpha_def Let_def)

section \<open>Zero trials in one arm\<close>




section \<open>When the quality checks fail\<close>




section \<open>The interval of the difference\<close>



section \<open>The significance flags\<close>



section \<open>Range and symmetry of the two-proportion test\<close>

text \<open>
  Claim C8, amended, on the test of the specification. Let both trial counts be
  positive, the successes at most the trials, and \<open>Phi\<close> between 1/2 and 1 on the
  non-negative numbers. When the pooled rate is strictly between 0 and 1, the statistic
  and the p-value are numbers, the p-value lies in [0,1], and swapping the samples negates
  the statistic and keeps the p-value. When the pooled rate is 0 or 1 the standard error
  is 0 and both values are \<open>nan\<close>, in either order. The effect of the overall entry
  changes sign when the two groups are swapped.
\<close>

theorem two_proportion_symmetry:
  fixes s1 s2 n1 n2 :: nat
  assumes "0 < n1" and "0 < n2" and "s1 \<le> n1" and "s2 \<le> n2"
    and "\<forall>x\<ge>0. 1 / 2 \<le> Phi x \<and> Phi x \<le> 1"
  shows "(0 < s1 + s2 \<and> s1 + s2 < n1 + n2 \<longrightarrow>
           (\<exists>z p. two_proportion_test Phi (s1, n1) (s2, n2) = (Num z, Num p)
              \<and> 0 \<le> p \<and> p \<le> 1
              \<and> two_proportion_test Phi (s2, n2) (s1, n1) = (Num (- z), Num p)))
       \<and> (s1 + s2 = 0 \<or> s1 + s2 = n1 + n2 \<longrightarrow>
           two_proportion_test Phi (s1, n1) (s2, n2) = (NaN, NaN)
           \<and> two_proportion_test Phi (s2, n2) (s1, n1) = (NaN, NaN))
       \<and> effect_size (overall_entry lib (int s1) (int s2) n1 n2) =
           fneg (effect_size (overall_entry lib (int s2) (int s1) n2 n1))"
proof (intro conjI impI)
  assume mid: "0 < s1 + s2 \<and> s1 + s2 < n1 + n2"
  let ?v = "(real s1 + real s2) / (real n1 + real n2)
               * (1 - (real s1 + real s2) / (real n1 + real n2)) * (1 / real n1 + 1 / real n2)"
  let ?z = "(real s1 / real n1 - real s2 / real n2) / sqrt ?v"
  have mid': "0 < s2 + s1" "s2 + s1 < n2 + n1" using mid by auto
  have one: "two_proportion_test Phi (s1, n1) (s2, n2) = (Num ?z, Num (2 * (1 - Phi \<bar>?z\<bar>)))"
    using two_proportion_test_value[OF assms(1,2), of s1 s2 Phi] mid by simp
  have v: "(real s2 + real s1) / (real n2 + real n1)
               * (1 - (real s2 + real s1) / (real n2 + real n1)) * (1 / real n2 + 1 / real n1) = ?v"
    by (simp add: add.commute)
  have z: "(real s2 / real n2 - real s1 / real n1) / sqrt ?v = - ?z"
    by (simp only: minus_divide_left minus_diff_eq)
  have two: "two_proportion_test Phi (s2, n2) (s1, n1) = (Num (- ?z), Num (2 * (1 - Phi \<bar>?z\<bar>)))"
    using two_proportion_test_value[OF assms(2,1) mid', of Phi] unfolding v z by simp
  have "1 / 2 \<le> Phi \<bar>?z\<bar> \<and> Phi \<bar>?z\<bar> \<le> 1" using assms(5) by simp
  then have "0 \<le> 2 * (1 - Phi \<bar>?z\<bar>) \<and> 2 * (1 - Phi \<bar>?z\<bar>) \<le> 1" by simp
  with one two
  show "\<exists>z p. two_proportion_test Phi (s1, n1) (s2, n2) = (Num z, Num p)
              \<and> 0 \<le> p \<and> p \<le> 1
              \<and> two_proportion_test Phi (s2, n2) (s1, n1) = (Num (- z), Num p)"
    by blast
next
  assume "s1 + s2 = 0 \<or> s1 + s2 = n1 + n2"
  then show "two_proportion_test Phi (s1, n1) (s2, n2) = (NaN, NaN)"
    by (rule two_proportion_test_degenerate[OF assms(1-4)])
next
  assume "s1 + s2 = 0 \<or> s1 + s2 = n1 + n2"
  then have "s2 + s1 = 0 \<or> s2 + s1 = n2 + n1" by (simp add: add.commute)
  then show "two_proportion_test Phi (s2, n2) (s1, n1) = (NaN, NaN)"
    by (rule two_proportion_test_degenerate[OF assms(2,1,4,3)])
next
  show "effect_size (overall_entry lib (int s1) (int s2) n1 n2) =
           fneg (effect_size (overall_entry lib (int s2) (int s1) n2 n1))"
    by (rule effect_size_swap[OF assms(1,2)])
qed

text \<open>
  The theorem of claim C8 at 1 success of 2 against 0 of 2, and at 2 of 2 against 2 of 2.
\<close>

theorem two_proportion_symmetry_witness:
  "(0::nat) < 2 \<and> (1::nat) \<le> 2 \<and> (0::nat) \<le> 2
   \<and> 1 / 2 \<le> step_cdf 0 \<and> step_cdf 3 \<le> 1
   \<and> (0::nat) < 1 + 0 \<and> (1::nat) + 0 < 2 + 2
   \<and> (\<exists>z p. two_proportion_test step_cdf (1, 2) (0, 2) = (Num z, Num p)
         \<and> 0 \<le> p \<and> p \<le> 1
         \<and> two_proportion_test step_cdf (0, 2) (1, 2) = (Num (- z), Num p))
   \<and> two_proportion_test step_cdf (2, 2) (2, 2) = (NaN, NaN)"
proof -
  have n: "(0::nat) < 2" by simp
  have s1: "(1::nat) \<le> 2" and s2: "(0::nat) \<le> 2" and s3: "(2::nat) \<le> 2" by simp_all
  have phi: "\<forall>x\<ge>0. 1 / 2 \<le> step_cdf x \<and> step_cdf x \<le> 1" by (simp add: step_cdf_def)
  have m: "(0::nat) < 1 + 0 \<and> (1::nat) + 0 < 2 + 2" by simp
  have e: "(2::nat) + 2 = 0 \<or> (2::nat) + 2 = 2 + 2" by simp
  have b: "1 / 2 \<le> step_cdf 0 \<and> step_cdf 3 \<le> 1" by (simp add: step_cdf_def)
  show ?thesis
    using n s1 s2 b m e two_proportion_symmetry[OF n n s1 s2 phi]
      two_proportion_symmetry[OF n n s3 s3 phi]
    by blast
qed

text \<open>
  Claim C8 as stated fails when neither sample has a success: the pooled rate is 0, the
  statistic is 0/0 and the p-value is \<open>nan\<close>, which is not in [0,1]. (\<open>Phi\<close> is
  never applied, so the function chosen for it does not matter.)
\<close>

theorem p_value_range_counterexample:
  "two_proportion_test step_cdf (0, 1) (0, 1) = (NaN, NaN)"
  by (simp add: two_proportion_test_def of_count_def fsub_def Let_def)

section \<open>Deduplication\<close>

text \<open>
  Claim C9. When no identifier occurs twice, the count of duplicates is 0, the data is
  kept as it is, and loading the prepared data again gives the same result, report
  included. For every collection, a load that succeeds leaves distinct identifiers, a
  second load of its data finds no duplicate and gives the same data and report, and the
  row kept for an identifier is the first row with that identifier.
\<close>

theorem deduplication_idempotent:
  "(distinct (map obs_id merged) \<longrightarrow>
      duplicates_count merged = 0
      \<and> (\<forall>p. load_and_prepare_data merged = Inr p \<longrightarrow>
            duplicates_found p = 0 \<and> prepared_data p = merged
            \<and> load_and_prepare_data (prepared_data p) = Inr p))
   \<and> (\<forall>p. load_and_prepare_data merged = Inr p \<longrightarrow>
         distinct (map obs_id (prepared_data p))
         \<and> load_and_prepare_data (prepared_data p) = Inr (p\<lparr>duplicates_found := 0\<rparr>)
         \<and> (\<forall>i. find (\<lambda>r. obs_id r = i) (prepared_data p) = find (\<lambda>r. obs_id r = i) merged))
   \<and> distinct (map obs_id (drop_duplicates merged))
   \<and> (\<forall>i. find (\<lambda>r. obs_id r = i) (drop_duplicates merged) = find (\<lambda>r. obs_id r = i) merged)"
proof -
  have second: "distinct (map obs_id (prepared_data p))
         \<and> load_and_prepare_data (prepared_data p) = Inr (p\<lparr>duplicates_found := 0\<rparr>)
         \<and> (\<forall>i. find (\<lambda>r. obs_id r = i) (prepared_data p) = find (\<lambda>r. obs_id r = i) merged)"
    if run: "load_and_prepare_data merged = Inr p" for p
  proof -
    note p = distinct_deduplicated_prepared[OF run]
    have d: "distinct (map obs_id (deduplicated merged))"
      by (cases "duplicates_count merged > 0")
         (simp_all add: deduplicated_def drop_duplicates_keep_first distinct_keep_first
            duplicates_count_def no_duplicates_flagged_iff)
    have again: "load_and_prepare_data (deduplicated merged) = Inr (p\<lparr>duplicates_found := 0\<rparr>)"
      using p by (simp add: load_and_prepare_data_alt deduplicated_idem
            duplicates_count_deduplicated)
    show ?thesis using d again by (simp add: p(1) find_deduplicated)
  qed
  have first: "duplicates_count merged = 0
      \<and> (\<forall>p. load_and_prepare_data merged = Inr p \<longrightarrow>
            duplicates_found p = 0 \<and> prepared_data p = merged
            \<and> load_and_prepare_data (prepared_data p) = Inr p)"
    if d: "distinct (map obs_id merged)"
  proof -
    have z: "duplicates_count merged = 0" using d by (rule duplicates_count_distinct)
    have "duplicates_found p = 0 \<and> prepared_data p = merged
            \<and> load_and_prepare_data (prepared_data p) = Inr p"
      if run: "load_and_prepare_data merged = Inr p" for p
      using distinct_deduplicated_prepared[OF run] run z d by (simp add: deduplicated_distinct)
    then show ?thesis using z by blast
  qed
  show ?thesis
    using first second
    by (simp add: drop_duplicates_keep_first distinct_keep_first find_keep_first)
qed

text \<open>
  The theorem of claim C9 at a dataset without duplicates and at one in which the
  identifier 1 occurs twice.
\<close>

theorem deduplication_idempotent_witness:
  "distinct (map obs_id zero_control_data)
   \<and> duplicates_count zero_control_data = 0
   \<and> load_and_prepare_data duplicate_rows_data = Inr duplicate_rows_prepared
   \<and> load_and_prepare_data (prepared_data duplicate_rows_prepared) =
       Inr (duplicate_rows_prepared\<lparr>duplicates_found := 0\<rparr>)
   \<and> find (\<lambda>r. obs_id r = 1) (prepared_data duplicate_rows_prepared) =
       find (\<lambda>r. obs_id r = 1) duplicate_rows_data"
proof -
  have d: "distinct (map obs_id zero_control_data)"
    by (simp add: zero_control_data_def row_def)
  show ?thesis
    using d duplicate_rows_run deduplication_idempotent[of zero_control_data]
      deduplication_idempotent[of duplicate_rows_data]
    by blast
qed

section \<open>A group without a row in the cross-tabulation\<close>

text \<open>
  Claim C10 fails on the code for a group without observations. Here the only row is a
  treatment row shown the old page: the column \<open>'new_page'\<close> is absent, so the control
  count defaults to 0 as the claim says, but the lookup of the row \<open>'control'\<close> raises
  KeyError before the guard \<open>total_control > 0\<close> is reached.
\<close>

theorem zero_total_group_raises:
  "data_quality_checks old_page_treatment_data = Inl (KeyError ''control'')"
  by (simp add: data_quality_checks_def pd_crosstab_def loc_cell_def loc_row_def Let_def
        old_page_treatment_data_def row_def)

end
